theory Spec2Isabelle
  imports Main "HOL-Library.AList"
begin

section \<open>JavaScript values and strings\<close>

text \<open>
  The values that travel through \<^verbatim>\<open>jwt.js\<close>: the fields of the user
  object handed to \<^verbatim>\<open>generateToken\<close>, and what a token's header and payload decode
  to, which is any JSON value. Numbers are the integers (identifiers and
  second-resolution timestamps); \<open>Undefined\<close> is what reading a missing property yields.
\<close>

datatype jsval =
    Undefined
  | Null
  | Bool bool
  | Num int
  | Str string
  | Arr "jsval list"
  | Obj "(string \<times> jsval) list"

text \<open>An object literal: its properties in insertion order.\<close>

type_synonym jsobject = "(string \<times> jsval) list"

definition get_prop :: "jsobject \<Rightarrow> string \<Rightarrow> jsval" where
  "get_prop obj k = (case map_of obj k of None \<Rightarrow> Undefined | Some v \<Rightarrow> v)"

text \<open>
  \<^verbatim>\<open>v.k\<close> for a value that is neither \<^verbatim>\<open>null\<close> nor \<^verbatim>\<open>undefined\<close>, and a name \<open>k\<close> that
  no prototype defines (\<open>alg\<close>, \<open>typ\<close>, \<open>nbf\<close>, \<open>exp\<close>): only an object can have it.
\<close>

fun property :: "jsval \<Rightarrow> string \<Rightarrow> jsval" where
  "property (Obj obj) k = get_prop obj k"
| "property v k = Undefined"

text \<open>What \<^verbatim>\<open>!!v\<close> is.\<close>

fun truthy :: "jsval \<Rightarrow> bool" where
  "truthy Undefined = False"
| "truthy Null = False"
| "truthy (Bool b) = b"
| "truthy (Num n) = (n \<noteq> 0)"
| "truthy (Str s) = (s \<noteq> [])"
| "truthy (Arr vs) = True"
| "truthy (Obj obj) = True"

text \<open>\<^verbatim>\<open>obj[k] = v\<close>: overwrite in place, or append a new property.\<close>

definition set_prop :: "string \<Rightarrow> jsval \<Rightarrow> jsobject \<Rightarrow> jsobject" where
  "set_prop k v obj = AList.update k v obj"

text \<open>\<^verbatim>\<open>JSON.stringify\<close> leaves out the properties whose value is \<^verbatim>\<open>undefined\<close>.\<close>

definition json_props :: "jsobject \<Rightarrow> jsobject" where
  "json_props obj = filter (\<lambda>kv. snd kv \<noteq> Undefined) obj"

text \<open>
  \<^verbatim>\<open>str.split(sep)\<close> for a one-character separator: the empty string gives one empty
  segment, and two separators in a row give an empty segment between them.
\<close>

fun js_split :: "char \<Rightarrow> string \<Rightarrow> string list" where
  "js_split sep [] = [[]]"
| "js_split sep (c # cs) =
     (if c = sep then [] # js_split sep cs
      else (case js_split sep cs of
              [] \<Rightarrow> [[c]]
            | seg # segs \<Rightarrow> (c # seg) # segs))"

text \<open>\<^verbatim>\<open>xs[i]\<close>: \<^verbatim>\<open>undefined\<close> (here \<open>None\<close>) out of range.\<close>

definition js_index :: "'a list \<Rightarrow> nat \<Rightarrow> 'a option" where
  "js_index xs i = (if i < length xs then Some (xs ! i) else None)"

definition is_space :: "char \<Rightarrow> bool" where
  "is_space c = (c \<in> set [CHR '' '', CHR 0x09, CHR 0x0A, CHR 0x0B, CHR 0x0C, CHR 0x0D])"

text \<open>\<^verbatim>\<open>str.trim()\<close>.\<close>

definition js_trim :: "string \<Rightarrow> string" where
  "js_trim s = rev (dropWhile is_space (rev (dropWhile is_space s)))"

text \<open>
  The header as the wording \<^emph>\<open>whitespace-delimited\<close> splits it: at every whitespace
  character. The code splits at the blank only (\<open>js_split\<close> above).
\<close>

fun whitespace_segments :: "string \<Rightarrow> string list" where
  "whitespace_segments [] = [[]]"
| "whitespace_segments (c # cs) =
     (if is_space c then [] # whitespace_segments cs
      else (case whitespace_segments cs of
              [] \<Rightarrow> [[c]]
            | seg # segs \<Rightarrow> (c # seg) # segs))"

text \<open>The base64url alphabet: it has no dot and no whitespace.\<close>

definition base64url_chars :: string where
  "base64url_chars = ''ABCDEFGHIJKLMNOPQRSTUVWXYZabcdefghijklmnopqrstuvwxyz0123456789-_''"

definition base64url :: "string \<Rightarrow> bool" where
  "base64url s = list_all (\<lambda>c. c \<in> set base64url_chars) s"

section \<open>The jsonwebtoken package\<close>

text \<open>
  \<^verbatim>\<open>jwt.js\<close> calls \<^verbatim>\<open>jwt.sign(payload, secret, { expiresIn: '30m' })\<close> and
  \<^verbatim>\<open>jwt.verify(token, secret)\<close> of the npm package \<^verbatim>\<open>jsonwebtoken\<close>, which is a
  dependency and not part of the repository. The two calls are modelled after the
  package's \<^verbatim>\<open>sign.js\<close>, \<^verbatim>\<open>decode.js\<close> and \<^verbatim>\<open>verify.js\<close> and the \<^verbatim>\<open>jws\<close> package
  beneath them, for exactly these call shapes (an object payload, a string secret that
  is plain HMAC key material, no further options). What the packages delegate to
  cryptography and to text encodings stays a parameter:
  \<^item> \<open>b64json\<close>: \<^verbatim>\<open>base64url(JSON.stringify(obj))\<close>, as the signer encodes header and
    payload;
  \<^item> \<open>header_text\<close> and \<open>payload_text\<close>: the base64 decoding of a header segment and of a
    payload segment to text (\<^verbatim>\<open>Buffer.from(segment, 'base64').toString(...)\<close>, which
    never fails);
  \<^item> \<open>JSON_parse\<close>: \<^verbatim>\<open>JSON.parse\<close>, \<open>None\<close> where it throws;
  \<^item> \<open>hmac alg key input\<close>: the base64url HMAC signature of \<open>input\<close> under \<open>key\<close>.
\<close>

record jwtlib =
  b64json :: "jsobject \<Rightarrow> string"
  header_text :: "string \<Rightarrow> string"
  payload_text :: "string \<Rightarrow> string"
  JSON_parse :: "string \<Rightarrow> jsval option"
  hmac :: "string \<Rightarrow> string \<Rightarrow> string \<Rightarrow> string"

datatype jwt_error =
    Error string
  | SyntaxError string
  | TypeError string
  | JsonWebTokenError string
  | NotBeforeError string
  | TokenExpiredError string

fun error_name :: "jwt_error \<Rightarrow> string" where
  "error_name (Error m) = ''Error''"
| "error_name (SyntaxError m) = ''SyntaxError''"
| "error_name (TypeError m) = ''TypeError''"
| "error_name (JsonWebTokenError m) = ''JsonWebTokenError''"
| "error_name (NotBeforeError m) = ''NotBeforeError''"
| "error_name (TokenExpiredError m) = ''TokenExpiredError''"

subsection \<open>Time spans\<close>

text \<open>
  \<^verbatim>\<open>expiresIn: '30m'\<close> is read by the package \<^verbatim>\<open>ms\<close>: a decimal number followed by a
  unit, giving milliseconds. The short unit names are modelled; any other text is no
  time span.
\<close>

definition digit_of :: "char \<Rightarrow> int option" where
  "digit_of c =
     map_of [(CHR ''0'', 0), (CHR ''1'', 1), (CHR ''2'', 2), (CHR ''3'', 3), (CHR ''4'', 4),
             (CHR ''5'', 5), (CHR ''6'', 6), (CHR ''7'', 7), (CHR ''8'', 8), (CHR ''9'', 9)] c"

fun parse_digits :: "int \<Rightarrow> string \<Rightarrow> int \<times> string" where
  "parse_digits acc [] = (acc, [])"
| "parse_digits acc (c # cs) =
     (case digit_of c of
        None \<Rightarrow> (acc, c # cs)
      | Some d \<Rightarrow> parse_digits (10 * acc + d) cs)"

definition unit_ms :: "string \<Rightarrow> int option" where
  "unit_ms u =
     (if u = [] \<or> u = ''ms'' then Some 1
      else if u = ''s'' then Some 1000
      else if u = ''m'' then Some 60000
      else if u = ''h'' then Some 3600000
      else if u = ''d'' then Some 86400000
      else if u = ''w'' then Some 604800000
      else None)"

definition ms :: "string \<Rightarrow> int option" where
  "ms str =
     (case str of
        [] \<Rightarrow> None
      | c # cs \<Rightarrow>
          (case digit_of c of
             None \<Rightarrow> None
           | Some d \<Rightarrow>
               (case parse_digits 0 str of
                  (n, u) \<Rightarrow> map_option (\<lambda>k. n * k) (unit_ms u))))"

text \<open>\<^verbatim>\<open>timespan(time, iat)\<close> of the package: \<^verbatim>\<open>Math.floor(iat + ms(time) / 1000)\<close>.\<close>

definition timespan :: "string \<Rightarrow> int \<Rightarrow> int option" where
  "timespan time iat = map_option (\<lambda>millis. iat + millis div 1000) (ms time)"

subsection \<open>Signing\<close>

definition jose_header :: jsobject where
  "jose_header = [(''alg'', Str ''HS256''), (''typ'', Str ''JWT'')]"

definition signing_input :: "jwtlib \<Rightarrow> jsobject \<Rightarrow> jsobject \<Rightarrow> string" where
  "signing_input L header payload =
     b64json L (json_props header) @ ''.'' @ b64json L (json_props payload)"

text \<open>The compact serialisation \<^verbatim>\<open>header.payload.signature\<close>.\<close>

definition jws_sign :: "jwtlib \<Rightarrow> jsobject \<Rightarrow> jsobject \<Rightarrow> string \<Rightarrow> string" where
  "jws_sign L header payload secret =
     signing_input L header payload @ ''.'' @
     hmac L ''HS256'' secret (signing_input L header payload)"

text \<open>
  The claims \<^verbatim>\<open>jwt.sign\<close> adds to an object payload that has no \<^verbatim>\<open>iat\<close> of its own:
  \<^verbatim>\<open>payload.iat = timestamp\<close>, then \<^verbatim>\<open>payload.exp = timespan(expiresIn, timestamp)\<close>.
\<close>

definition stamp :: "jsobject \<Rightarrow> int \<Rightarrow> int \<Rightarrow> jsobject" where
  "stamp payload timestamp expiry =
     set_prop ''exp'' (Num expiry) (set_prop ''iat'' (Num timestamp) payload)"

text \<open>
  \<^verbatim>\<open>jwt.sign(payload, secretOrPrivateKey, { expiresIn })\<close> at clock \<open>now\<close>, which is
  \<^verbatim>\<open>Math.floor(Date.now() / 1000)\<close>, in seconds. A missing or empty secret throws.
\<close>

definition jwt_sign ::
  "jwtlib \<Rightarrow> jsobject \<Rightarrow> string option \<Rightarrow> string \<Rightarrow> int \<Rightarrow> jwt_error + string" where
  "jwt_sign L payload secretOrPrivateKey expiresIn now =
     (case secretOrPrivateKey of
        None \<Rightarrow> Inl (Error ''secretOrPrivateKey must have a value'')
      | Some secret \<Rightarrow>
          if secret = [] then Inl (Error ''secretOrPrivateKey must have a value'')
          else
            (case timespan expiresIn now of
               None \<Rightarrow> Inl (Error ''expiresIn should be a number of seconds or string representing a timespan'')
             | Some expiry \<Rightarrow> Inr (jws_sign L jose_header (stamp payload now expiry) secret)))"

subsection \<open>Decoding\<close>

text \<open>
  \<^verbatim>\<open>headerFromJWS\<close> of \<^verbatim>\<open>jws\<close>: the header segment as JSON, \<^verbatim>\<open>undefined\<close> where it
  does not parse.
\<close>

definition headerFromJWS :: "jwtlib \<Rightarrow> string \<Rightarrow> jsval" where
  "headerFromJWS L segment =
     (case JSON_parse L (header_text L segment) of None \<Rightarrow> Undefined | Some header \<Rightarrow> header)"

text \<open>
  \<^verbatim>\<open>isValidJws\<close>: the three segments are base64url text, the first two not empty, and
  the header is truthy.
\<close>

definition isValidJws :: "jwtlib \<Rightarrow> string list \<Rightarrow> bool" where
  "isValidJws L parts \<longleftrightarrow>
     base64url (parts ! 0) \<and> parts ! 0 \<noteq> [] \<and>
     base64url (parts ! 1) \<and> parts ! 1 \<noteq> [] \<and>
     base64url (parts ! 2) \<and>
     truthy (headerFromJWS L (parts ! 0))"

text \<open>
  \<^verbatim>\<open>jws.decode\<close> on a token of three segments: \<^verbatim>\<open>null\<close> (here \<open>Inr None\<close>) for a token
  that is not valid; the payload is parsed as JSON when the header says
  \<^verbatim>\<open>typ: 'JWT'\<close>, which throws where it does not parse, and is the decoded text
  otherwise.
\<close>

definition jwsDecode :: "jwtlib \<Rightarrow> string list \<Rightarrow> jwt_error + (jsval \<times> jsval) option" where
  "jwsDecode L parts =
     (if \<not> isValidJws L parts then Inr None
      else
        (let header = headerFromJWS L (parts ! 0);
             payload = payload_text L (parts ! 1)
         in
           if property header ''typ'' = Str ''JWT'' then
             (case JSON_parse L payload of
                None \<Rightarrow> Inl (SyntaxError ''Unexpected token in JSON'')
              | Some parsed \<Rightarrow> Inr (Some (header, parsed)))
           else Inr (Some (header, Str payload))))"

text \<open>
  \<^verbatim>\<open>decode(jwt, { complete: true })\<close> of \<^verbatim>\<open>jsonwebtoken\<close>: a payload that is still a
  string is parsed once more, and replaced where that gives an object or an array.
\<close>

definition decode :: "jwtlib \<Rightarrow> string list \<Rightarrow> jwt_error + (jsval \<times> jsval) option" where
  "decode L parts =
     (case jwsDecode L parts of
        Inl e \<Rightarrow> Inl e
      | Inr None \<Rightarrow> Inr None
      | Inr (Some (header, payload)) \<Rightarrow>
          Inr (Some (header,
            (case payload of
               Str s \<Rightarrow>
                 (case JSON_parse L s of
                    Some (Obj obj) \<Rightarrow> Obj obj
                  | Some (Arr vs) \<Rightarrow> Arr vs
                  | _ \<Rightarrow> Str s)
             | _ \<Rightarrow> payload))))"

subsection \<open>Verifying\<close>

definition HS_ALGS :: "string list" where
  "HS_ALGS = [''HS256'', ''HS384'', ''HS512'']"

text \<open>
  The first half of \<^verbatim>\<open>jwt.verify\<close>: the token is split at the dots and decoded, and
  the signature is recomputed under the secret and compared. A secret that is missing
  or empty is falsy. The payload need not be an object.
\<close>

definition jws_verified :: "jwtlib \<Rightarrow> string \<Rightarrow> string option \<Rightarrow> jwt_error + jsval" where
  "jws_verified L jwtString secretOrPublicKey =
     (if jwtString = [] then Inl (JsonWebTokenError ''jwt must be provided'')
      else
        (let parts = js_split CHR ''.'' jwtString in
         if length parts \<noteq> 3 then Inl (JsonWebTokenError ''jwt malformed'')
         else
           (case decode L parts of
              Inl e \<Rightarrow> Inl e
            | Inr None \<Rightarrow> Inl (JsonWebTokenError ''invalid token'')
            | Inr (Some (header, payload)) \<Rightarrow>
                (let hasSignature = (js_trim (parts ! 2) \<noteq> []);
                     secret = (case secretOrPublicKey of None \<Rightarrow> [] | Some k \<Rightarrow> k)
                 in
                   if \<not> hasSignature \<and> secret \<noteq> [] then
                     Inl (JsonWebTokenError ''jwt signature is required'')
                   else if hasSignature \<and> secret = [] then
                     Inl (JsonWebTokenError ''secret or public key must be provided'')
                   else if \<not> hasSignature then
                     Inl (JsonWebTokenError ''please specify none in algorithms to verify unsigned tokens'')
                   else
                     (case property header ''alg'' of
                        Str alg \<Rightarrow>
                          if alg \<notin> set HS_ALGS then
                            Inl (JsonWebTokenError ''invalid algorithm'')
                          else if hmac L alg secret (parts ! 0 @ ''.'' @ parts ! 1) \<noteq> parts ! 2
                          then Inl (JsonWebTokenError ''invalid signature'')
                          else Inr payload
                      | _ \<Rightarrow> Inl (JsonWebTokenError ''invalid algorithm''))))))"

text \<open>
  The second half: the registered claims of the payload against the clock. Reading a
  property of \<^verbatim>\<open>null\<close> throws. A not-before claim is examined first, the expiry after
  it; a token is expired from the second \<open>exp\<close> on.
\<close>

definition validate_claims :: "jsval \<Rightarrow> int \<Rightarrow> jwt_error + jsval" where
  "validate_claims payload clockTimestamp =
     (if payload = Null then Inl (TypeError ''Cannot read properties of null'')
      else
        (let nbf_error =
           (case property payload ''nbf'' of
              Undefined \<Rightarrow> None
            | Num nbf \<Rightarrow>
                if nbf > clockTimestamp then Some (NotBeforeError ''jwt not active'') else None
            | _ \<Rightarrow> Some (JsonWebTokenError ''invalid nbf value''))
         in
           (case nbf_error of
              Some e \<Rightarrow> Inl e
            | None \<Rightarrow>
                (case property payload ''exp'' of
                   Undefined \<Rightarrow> Inr payload
                 | Num exp \<Rightarrow>
                     if clockTimestamp \<ge> exp then Inl (TokenExpiredError ''jwt expired'')
                     else Inr payload
                 | _ \<Rightarrow> Inl (JsonWebTokenError ''invalid exp value'')))))"

definition jwt_verify ::
  "jwtlib \<Rightarrow> string \<Rightarrow> string option \<Rightarrow> int \<Rightarrow> jwt_error + jsval" where
  "jwt_verify L jwtString secretOrPublicKey clockTimestamp =
     (case jws_verified L jwtString secretOrPublicKey of
        Inl e \<Rightarrow> Inl e
      | Inr payload \<Rightarrow> validate_claims payload clockTimestamp)"

section \<open>The module jwt.js\<close>

text \<open>\<^verbatim>\<open>process.env\<close>: the signing secret, when it is set.\<close>

record process_env =
  JWT_SECRET :: "string option"

text \<open>
  The request as the middleware sees it: its headers, and the \<^verbatim>\<open>user\<close> property the
  middleware assigns (absent on a fresh request).
\<close>

record request =
  headers :: "string \<rightharpoonup> string"
  user :: "jsval option"

text \<open>
  What one run of the middleware has done: the request as it leaves it, the responses
  written with \<^verbatim>\<open>res.status(code).json({ message })\<close>, and how often \<^verbatim>\<open>next()\<close> was
  called. \<^verbatim>\<open>next()\<close> hands control to the router and returns; the router catches what
  a later handler throws, so nothing comes back into the \<^verbatim>\<open>try\<close> block from it.
\<close>

record outcome =
  req_out :: request
  sent :: "(nat \<times> string) list"
  next_calls :: nat

text \<open>
  \<^verbatim>\<open>
  const generateToken = (user) => {
      const payload = { id: user.id };
      const token = jwt.sign(payload, process.env.JWT_SECRET, { expiresIn: '30m' });
      return token;
  };
  \<close>
\<close>

definition generateToken ::
  "jwtlib \<Rightarrow> process_env \<Rightarrow> int \<Rightarrow> jsobject \<Rightarrow> jwt_error + string" where
  "generateToken L env now usr =
     (let payload = [(''id'', get_prop usr ''id'')]
      in jwt_sign L payload (JWT_SECRET env) ''30m'' now)"

text \<open>\<^verbatim>\<open>req.headers['authorization']?.split(' ')[1]\<close>\<close>

definition header_token :: "request \<Rightarrow> string option" where
  "header_token req =
     (case headers req ''authorization'' of
        None \<Rightarrow> None
      | Some h \<Rightarrow> js_index (js_split CHR '' '' h) 1)"

definition respond :: "request \<Rightarrow> nat \<Rightarrow> string \<Rightarrow> outcome" where
  "respond req code message = \<lparr>req_out = req, sent = [(code, message)], next_calls = 0\<rparr>"

text \<open>
  \<^verbatim>\<open>
  const authenticate = (req, res, next) => {
      const token = req.headers['authorization']?.split(' ')[1];
      if (!token) {
          return res.status(401).json({ message: 'Access denied. No token provided.' });
      }
      try {
          const verified = jwt.verify(token, process.env.JWT_SECRET);
          req.user = verified;
          next();
      } catch (error) {
          if (error.name === 'TokenExpiredError') {
              return res.status(401).json({ message: 'Token has expired. Please log in again.' });
          }
          res.status(400).json({ message: 'Invalid token.' });
      }
  };
  \<close>
  \<open>now\<close> is the clock \<^verbatim>\<open>jwt.verify\<close> reads. The empty string is falsy, as
  \<^verbatim>\<open>undefined\<close> is.
\<close>

definition authenticate :: "jwtlib \<Rightarrow> process_env \<Rightarrow> int \<Rightarrow> request \<Rightarrow> outcome" where
  "authenticate L env now req =
     (case header_token req of
        None \<Rightarrow> respond req 401 ''Access denied. No token provided.''
      | Some token \<Rightarrow>
          if token = [] then respond req 401 ''Access denied. No token provided.''
          else
            (case jwt_verify L token (JWT_SECRET env) now of
               Inr verified \<Rightarrow>
                 \<lparr>req_out = req\<lparr>user := Some verified\<rparr>, sent = [], next_calls = 1\<rparr>
             | Inl error \<Rightarrow>
                 if error_name error = ''TokenExpiredError''
                 then respond req 401 ''Token has expired. Please log in again.''
                 else respond req 400 ''Invalid token.''))"

section \<open>What the library parameters are assumed to do\<close>

text \<open>
  The codec works on one object, as a header or as a payload: its encoding is
  non-empty base64url text that decodes and parses back to the object.
\<close>

definition encodes_header :: "jwtlib \<Rightarrow> jsobject \<Rightarrow> bool" where
  "encodes_header L obj \<longleftrightarrow>
     base64url (b64json L obj) \<and> b64json L obj \<noteq> [] \<and>
     JSON_parse L (header_text L (b64json L obj)) = Some (Obj obj)"

definition encodes :: "jwtlib \<Rightarrow> jsobject \<Rightarrow> bool" where
  "encodes L obj \<longleftrightarrow>
     base64url (b64json L obj) \<and> b64json L obj \<noteq> [] \<and>
     JSON_parse L (payload_text L (b64json L obj)) = Some (Obj obj)"

text \<open>
  The library works on one token: header and payload are encoded as above, and the
  signature under \<open>secret\<close> is non-empty base64url text.
\<close>

definition well_encoded :: "jwtlib \<Rightarrow> string \<Rightarrow> jsobject \<Rightarrow> bool" where
  "well_encoded L secret payload \<longleftrightarrow>
     encodes_header L (json_props jose_header) \<and> encodes L (json_props payload) \<and>
     hmac L ''HS256'' secret (signing_input L jose_header payload) \<noteq> [] \<and>
     base64url (hmac L ''HS256'' secret (signing_input L jose_header payload))"

text \<open>
  A token string carries a signature of \<open>secret\<close>: it has three segments and the third is
  the HMAC, in one of the accepted algorithms, of the first two.
\<close>

definition signed_by :: "jwtlib \<Rightarrow> string \<Rightarrow> string \<Rightarrow> bool" where
  "signed_by L secret t =
     (case js_split CHR ''.'' t of
        [h, p, s] \<Rightarrow> list_ex (\<lambda>alg. hmac L alg secret (h @ ''.'' @ p) = s) HS_ALGS
      | _ \<Rightarrow> False)"

section \<open>An instance of the library parameters\<close>

text \<open>
  A small codec and keyed signature on which the functions can be run. Three objects
  have an encoding of their own; a fourth segment is the encoding of the JSON text
  \<^verbatim>\<open>42\<close>. HMAC pads a short key with zero bytes, so a key and the same key followed by
  zero bytes sign alike: here the signature of an input under a key is the key without
  its trailing zero bytes, followed by the input without its dots.
\<close>

definition claims_42 :: jsobject where
  "claims_42 = [(''id'', Num 42), (''iat'', Num 1000), (''exp'', Num 2800)]"

definition claims_nbf :: jsobject where
  "claims_nbf = [(''id'', Num 42), (''iat'', Num 1000), (''nbf'', Num 5000), (''exp'', Num 2000)]"

definition strip_zeros :: "string \<Rightarrow> string" where
  "strip_zeros key = rev (dropWhile (\<lambda>c. c = CHR 0x00) (rev key))"

definition demo_text :: "string \<Rightarrow> string" where
  "demo_text segment =
     (if segment = ''eyJh'' then ''header''
      else if segment = ''cDQy'' then ''claims 42''
      else if segment = ''bmJm'' then ''claims nbf''
      else if segment = ''NDI'' then ''42''
      else if segment = ''e30'' then ''{}''
      else ''?'')"

definition demo_parse :: "string \<Rightarrow> jsval option" where
  "demo_parse text =
     (if text = ''header'' then Some (Obj jose_header)
      else if text = ''claims 42'' then Some (Obj claims_42)
      else if text = ''claims nbf'' then Some (Obj claims_nbf)
      else if text = ''42'' then Some (Num 42)
      else if text = ''{}'' then Some (Obj [])
      else None)"

definition demo_lib :: jwtlib where
  "demo_lib =
     \<lparr>b64json = (\<lambda>obj. if obj = jose_header then ''eyJh''
                      else if obj = claims_42 then ''cDQy''
                      else if obj = claims_nbf then ''bmJm''
                      else ''e30''),
      header_text = demo_text,
      payload_text = demo_text,
      JSON_parse = demo_parse,
      hmac = (\<lambda>alg secret input. strip_zeros secret @ filter (\<lambda>c. c \<noteq> CHR ''.'') input)\<rparr>"

definition demo_env :: process_env where
  "demo_env = \<lparr>JWT_SECRET = Some ''k1''\<rparr>"

definition other_env :: process_env where
  "other_env = \<lparr>JWT_SECRET = Some ''k2''\<rparr>"

text \<open>The user object of the login route: \<^verbatim>\<open>{ id: user.user_id, username: user.username }\<close>.\<close>

definition alice :: jsobject where
  "alice = [(''id'', Num 42), (''username'', Str ''alice'')]"

definition request_with :: "string \<Rightarrow> request" where
  "request_with h = \<lparr>headers = [''authorization'' \<mapsto> h], user = None\<rparr>"

definition request_without :: request where
  "request_without = \<lparr>headers = Map.empty, user = None\<rparr>"

section \<open>Strings and time spans\<close>

lemma ms_30m: "ms ''30m'' = Some 1800000"
  by (simp add: ms_def digit_of_def unit_ms_def)

lemma timespan_30m: "timespan ''30m'' t = Some (t + 1800)"
  by (simp add: timespan_def ms_30m)

lemma js_split_nonempty: "js_split sep s \<noteq> []"
  by (induction s) (auto split: list.splits)

lemma js_split_no_sep: "sep \<notin> set s \<Longrightarrow> js_split sep s = [s]"
  by (induction s) auto

lemma js_split_append: "sep \<notin> set a \<Longrightarrow> js_split sep (a @ sep # b) = a # js_split sep b"
  by (induction a) auto

lemma dot_not_base64url: "CHR ''.'' \<notin> set base64url_chars"
  by (simp add: base64url_chars_def)

lemma space_not_base64url: "is_space c \<Longrightarrow> c \<notin> set base64url_chars"
  unfolding is_space_def base64url_chars_def by (elim rev_mp) simp

lemma base64url_no_dot: "base64url s \<Longrightarrow> CHR ''.'' \<notin> set s"
  using dot_not_base64url by (auto simp: base64url_def list_all_iff)

lemma base64url_no_space: "base64url s \<Longrightarrow> c \<in> set s \<Longrightarrow> \<not> is_space c"
  using space_not_base64url by (auto simp: base64url_def list_all_iff)

lemma base64url_no_blank: "base64url s \<Longrightarrow> CHR '' '' \<notin> set s"
  using base64url_no_space [of s "CHR '' ''"] by (auto simp: is_space_def)

lemma js_trim_id: "\<forall>c\<in>set s. \<not> is_space c \<Longrightarrow> js_trim s = s"
proof (cases s rule: rev_cases)
  case Nil
  then show ?thesis by (simp add: js_trim_def)
next
  case (snoc ys y)
  assume a: "\<forall>c\<in>set s. \<not> is_space c"
  then have "dropWhile is_space s = s"
    by (cases s) auto
  moreover from a snoc have "dropWhile is_space (rev s) = rev s"
    by simp
  ultimately show ?thesis by (simp add: js_trim_def)
qed

lemma js_trim_base64url: "base64url s \<Longrightarrow> js_trim s = s"
  using base64url_no_space by (intro js_trim_id) blast

lemma js_split_token:
  assumes "CHR ''.'' \<notin> set h" "CHR ''.'' \<notin> set p" "CHR ''.'' \<notin> set s"
  shows "js_split CHR ''.'' (h @ ''.'' @ p @ ''.'' @ s) = [h, p, s]"
  using assms by (simp add: js_split_append js_split_no_sep)

section \<open>Signing and verifying\<close>

lemma json_props_jose_header: "json_props jose_header = jose_header"
  by (simp add: json_props_def jose_header_def)

lemma jws_sign_split:
  assumes "well_encoded L secret payload"
  shows "js_split CHR ''.'' (jws_sign L jose_header payload secret) =
           [b64json L (json_props jose_header), b64json L (json_props payload),
            hmac L ''HS256'' secret (signing_input L jose_header payload)]"
  using assms js_split_token [OF base64url_no_dot base64url_no_dot base64url_no_dot]
  by (simp add: well_encoded_def encodes_def encodes_header_def jws_sign_def signing_input_def)

lemma jws_sign_nonempty: "jws_sign L header payload k \<noteq> []"
  by (simp add: jws_sign_def)

lemma jws_sign_no_blank:
  assumes "well_encoded L k payload"
  shows "CHR '' '' \<notin> set (jws_sign L jose_header payload k)"
  using assms
  by (auto simp: well_encoded_def encodes_def encodes_header_def jws_sign_def signing_input_def
      dest: base64url_no_blank)

lemma decode_signed:
  assumes "well_encoded L secret payload"
  shows "decode L [b64json L (json_props jose_header), b64json L (json_props payload),
            hmac L ''HS256'' secret (signing_input L jose_header payload)] =
           Inr (Some (Obj jose_header, Obj (json_props payload)))"
proof -
  let ?h = "b64json L (json_props jose_header)" and ?p = "b64json L (json_props payload)"
  let ?s = "hmac L ''HS256'' secret (signing_input L jose_header payload)"
  have hdr: "headerFromJWS L ?h = Obj jose_header"
    using assms by (simp add: well_encoded_def encodes_header_def headerFromJWS_def
        json_props_jose_header)
  have valid: "isValidJws L [?h, ?p, ?s]"
    using assms hdr
    by (simp add: isValidJws_def well_encoded_def encodes_def encodes_header_def)
  have is_jwt: "property (Obj jose_header) ''typ'' = Str ''JWT''"
    by (simp add: get_prop_def jose_header_def)
  have payload: "JSON_parse L (payload_text L ?p) = Some (Obj (json_props payload))"
    using assms by (simp add: well_encoded_def encodes_def)
  have "jwsDecode L [?h, ?p, ?s] = Inr (Some (Obj jose_header, Obj (json_props payload)))"
    using valid hdr is_jwt payload by (simp add: jwsDecode_def)
  then show ?thesis
    by (simp add: decode_def)
qed

lemma jws_sign_verified:
  assumes "well_encoded L secret payload" "secret \<noteq> []"
  shows "jws_verified L (jws_sign L jose_header payload secret) (Some secret) =
           Inr (Obj (json_props payload))"
proof -
  let ?h = "b64json L (json_props jose_header)" and ?p = "b64json L (json_props payload)"
  let ?s = "hmac L ''HS256'' secret (signing_input L jose_header payload)"
  have parts: "js_split CHR ''.'' (jws_sign L jose_header payload secret) = [?h, ?p, ?s]"
    by (rule jws_sign_split [OF assms(1)])
  have ne: "jws_sign L jose_header payload secret \<noteq> []"
    by (simp add: jws_sign_def)
  have tr: "js_trim ?s \<noteq> []"
    using assms(1) by (simp add: well_encoded_def js_trim_base64url)
  have alg: "property (Obj jose_header) ''alg'' = Str ''HS256''"
    by (simp add: get_prop_def jose_header_def)
  have inp: "?h @ ''.'' @ ?p = signing_input L jose_header payload"
    by (simp add: signing_input_def)
  show ?thesis
    unfolding jws_verified_def Let_def parts
    using ne decode_signed [OF assms(1)] tr alg inp assms(2) by (simp add: HS_ALGS_def)
qed

text \<open>
  Whatever fails in the first half of the verification, it is not an expiry.
\<close>

lemma decode_error: "decode L parts = Inl e \<Longrightarrow> error_name e = ''SyntaxError''"
  by (auto simp: decode_def jwsDecode_def Let_def split: if_splits option.splits sum.splits)

lemma jws_verified_error:
  "jws_verified L t secret = Inl e \<Longrightarrow> error_name e \<noteq> ''TokenExpiredError''"
  by (auto simp: jws_verified_def Let_def dest!: decode_error
      split: if_splits option.splits sum.splits jsval.splits prod.splits)

text \<open>
  A token whose third segment is not the HMAC of the first two under the secret fails
  the first half of the verification, whatever the codec does; so does a token that has
  not exactly three segments, and every token when no secret is set.
\<close>

lemma not_signed_by_error:
  assumes "\<not> signed_by L k t"
  shows "\<exists>e. jws_verified L t (Some k) = Inl e"
proof (cases "length (js_split CHR ''.'' t) = 3")
  case False
  then show ?thesis by (simp add: jws_verified_def Let_def)
next
  case True
  then obtain h p s where parts: "js_split CHR ''.'' t = [h, p, s]"
    by (auto simp: length_Suc_conv eval_nat_numeral)
  with assms have nosig: "alg \<in> set HS_ALGS \<Longrightarrow> hmac L alg k (h @ ''.'' @ p) \<noteq> s" for alg
    by (auto simp: signed_by_def list_ex_iff)
  show ?thesis
    unfolding jws_verified_def Let_def parts
    using nosig by (auto split: option.splits jsval.splits sum.splits prod.splits)
qed

lemma not_three_segments: "length (js_split CHR ''.'' t) \<noteq> 3 \<Longrightarrow> \<not> signed_by L k t"
  by (auto simp: signed_by_def split: list.splits)

lemma jws_verified_no_secret: "\<exists>e. jws_verified L t None = Inl e"
  by (auto simp: jws_verified_def Let_def split: option.splits sum.splits prod.splits)

lemma jwt_verify_unsigned:
  assumes "\<forall>k. secret = Some k \<longrightarrow> \<not> signed_by L k t"
  shows "\<exists>e. jwt_verify L t secret now = Inl e \<and> error_name e \<noteq> ''TokenExpiredError''"
proof -
  have "\<exists>e. jws_verified L t secret = Inl e"
    using assms not_signed_by_error [of L _ t] jws_verified_no_secret [of L t]
    by (cases secret) auto
  then show ?thesis
    using jws_verified_error by (auto simp: jwt_verify_def)
qed


section \<open>The two functions of the module\<close>

lemma stamp_id: "stamp [(''id'', v)] t e = [(''id'', v), (''iat'', Num t), (''exp'', Num e)]"
  by (simp add: stamp_def set_prop_def)

lemma generateToken_unfold:
  "generateToken L env t0 usr =
     (case JWT_SECRET env of
        None \<Rightarrow> Inl (Error ''secretOrPrivateKey must have a value'')
      | Some k \<Rightarrow>
          if k = [] then Inl (Error ''secretOrPrivateKey must have a value'')
          else Inr (jws_sign L jose_header
                 [(''id'', get_prop usr ''id''), (''iat'', Num t0), (''exp'', Num (t0 + 1800))] k))"
  by (simp add: generateToken_def jwt_sign_def timespan_30m stamp_id split: option.splits)

lemma generateToken_Inr:
  assumes "generateToken L env t0 usr = Inr tok" "JWT_SECRET env = Some k"
  shows "k \<noteq> []"
    and "tok = jws_sign L jose_header
           [(''id'', get_prop usr ''id''), (''iat'', Num t0), (''exp'', Num (t0 + 1800))] k"
  using assms by (auto simp: generateToken_unfold split: if_splits)

lemma json_props_issued:
  "json_props [(''id'', ident), (''iat'', Num t0), (''exp'', Num e)] =
     (if ident = Undefined then [] else [(''id'', ident)]) @ [(''iat'', Num t0), (''exp'', Num e)]"
  by (simp add: json_props_def)

lemma validate_issued_props:
  "validate_claims (Obj (json_props [(''id'', ident), (''iat'', Num t0), (''exp'', Num e)])) now =
     (if now \<ge> e then Inl (TokenExpiredError ''jwt expired'')
      else Inr (Obj (json_props [(''id'', ident), (''iat'', Num t0), (''exp'', Num e)])))"
  by (simp add: validate_claims_def get_prop_def json_props_def)

lemma verify_issued:
  assumes secret: "JWT_SECRET env = Some secret"
      and issued: "generateToken L env t0 usr = Inr tok"
      and lib: "well_encoded L secret
                  [(''id'', get_prop usr ''id''), (''iat'', Num t0), (''exp'', Num (t0 + 1800))]"
  shows "jwt_verify L tok (JWT_SECRET env) now =
           (if now \<ge> t0 + 1800 then Inl (TokenExpiredError ''jwt expired'')
            else Inr (Obj (json_props
                   [(''id'', get_prop usr ''id''), (''iat'', Num t0), (''exp'', Num (t0 + 1800))])))"
  using jws_sign_verified [OF lib generateToken_Inr(1) [OF issued secret]]
    generateToken_Inr(2) [OF issued secret]
  by (simp add: jwt_verify_def secret validate_issued_props)

lemma header_token_absent:
  assumes "headers req ''authorization'' = None \<or>
           (\<exists>h. headers req ''authorization'' = Some h \<and> length (js_split CHR '' '' h) < 2)"
  shows "header_token req = None"
  using assms by (auto simp: header_token_def js_index_def)

lemma header_token_bearer:
  assumes "headers req ''authorization'' = Some (''Bearer '' @ tok)"
      and "CHR '' '' \<notin> set tok"
  shows "header_token req = Some tok"
proof -
  have "js_split CHR '' '' (''Bearer'' @ CHR '' '' # tok) = ''Bearer'' # js_split CHR '' '' tok"
    by (rule js_split_append) simp
  then show ?thesis
    using assms by (simp add: header_token_def js_index_def js_split_no_sep)
qed

lemma header_token_issued:
  assumes secret: "JWT_SECRET env = Some secret"
      and issued: "generateToken L env t0 usr = Inr tok"
      and lib: "well_encoded L secret
                  [(''id'', get_prop usr ''id''), (''iat'', Num t0), (''exp'', Num (t0 + 1800))]"
      and header: "headers req ''authorization'' = Some (''Bearer '' @ tok)"
  shows "header_token req = Some tok" and "tok \<noteq> []"
  using generateToken_Inr(2) [OF issued secret] jws_sign_no_blank [OF lib] header
  by (simp_all add: header_token_bearer jws_sign_nonempty)

lemma authenticate_cases:
  "authenticate L env now req =
     (case header_token req of
        None \<Rightarrow> respond req 401 ''Access denied. No token provided.''
      | Some t \<Rightarrow>
          if t = [] then respond req 401 ''Access denied. No token provided.''
          else (case jwt_verify L t (JWT_SECRET env) now of
                  Inr v \<Rightarrow> \<lparr>req_out = req\<lparr>user := Some v\<rparr>, sent = [], next_calls = 1\<rparr>
                | Inl e \<Rightarrow>
                    if error_name e = ''TokenExpiredError''
                    then respond req 401 ''Token has expired. Please log in again.''
                    else respond req 400 ''Invalid token.''))"
  by (simp add: authenticate_def)

lemma authenticate_token:
  assumes "header_token req = Some t" "t \<noteq> []"
  shows "authenticate L env now req =
           (case jwt_verify L t (JWT_SECRET env) now of
              Inr verified \<Rightarrow> \<lparr>req_out = req\<lparr>user := Some verified\<rparr>, sent = [], next_calls = 1\<rparr>
            | Inl error \<Rightarrow>
                if error_name error = ''TokenExpiredError''
                then respond req 401 ''Token has expired. Please log in again.''
                else respond req 400 ''Invalid token.'')"
  using assms by (simp add: authenticate_def)

lemma authenticate_unsigned:
  assumes "header_token req = Some t" "t \<noteq> []"
      and "\<forall>k. JWT_SECRET env = Some k \<longrightarrow> \<not> signed_by L k t"
  shows "authenticate L env now req = respond req 400 ''Invalid token.''"
  using jwt_verify_unsigned [OF assms(3), of now] assms(1,2)
  by (auto simp: authenticate_token)

section \<open>The instance at work\<close>

lemma demo_issue: "generateToken demo_lib demo_env 1000 alice = Inr ''eyJh.cDQy.k1eyJhcDQy''"
  by (simp add: generateToken_unfold demo_env_def alice_def get_prop_def jws_sign_def
      signing_input_def demo_lib_def json_props_def jose_header_def claims_42_def strip_zeros_def)

lemma demo_well_encoded:
  "well_encoded demo_lib ''k1'' [(''id'', Num 42), (''iat'', Num 1000), (''exp'', Num 2800)]"
  by (simp add: well_encoded_def encodes_def encodes_header_def signing_input_def demo_lib_def
      json_props_def jose_header_def claims_42_def base64url_def base64url_chars_def
      demo_text_def demo_parse_def strip_zeros_def)

lemma demo_header_token:
  "header_token (request_with ''Bearer eyJh.cDQy.k1eyJhcDQy'') = Some ''eyJh.cDQy.k1eyJhcDQy''"
  by (simp add: header_token_def request_with_def js_index_def)

lemma demo_verified:
  "jws_verified demo_lib ''eyJh.cDQy.k1eyJhcDQy'' (Some ''k1'') = Inr (Obj claims_42)"
proof -
  have "''eyJh.cDQy.k1eyJhcDQy'' =
      jws_sign demo_lib jose_header [(''id'', Num 42), (''iat'', Num 1000), (''exp'', Num 2800)] ''k1''"
    by (simp add: jws_sign_def signing_input_def demo_lib_def json_props_def jose_header_def
        claims_42_def strip_zeros_def)
  then show ?thesis
    using jws_sign_verified [OF demo_well_encoded] by (simp add: json_props_def claims_42_def)
qed

lemma demo_verify_1500:
  "jwt_verify demo_lib ''eyJh.cDQy.k1eyJhcDQy'' (JWT_SECRET demo_env) 1500 = Inr (Obj claims_42)"
  by (simp add: jwt_verify_def demo_env_def demo_verified)
     (simp add: validate_claims_def claims_42_def get_prop_def)

text \<open>
  A token signed under the guard's secret whose payload is the number 42, not an
  object: the verification returns the number and the request is accepted.
\<close>

lemma demo_number_payload:
  "authenticate demo_lib demo_env 1500 (request_with ''Bearer eyJh.NDI.k1eyJhNDI'') =
     \<lparr>req_out = (request_with ''Bearer eyJh.NDI.k1eyJhNDI'')\<lparr>user := Some (Num 42)\<rparr>,
      sent = [], next_calls = 1\<rparr>"
proof -
  have token: "header_token (request_with ''Bearer eyJh.NDI.k1eyJhNDI'') = Some ''eyJh.NDI.k1eyJhNDI''"
    by (simp add: header_token_def request_with_def js_index_def)
  have parts: "js_split CHR ''.'' ''eyJh.NDI.k1eyJhNDI'' = [''eyJh'', ''NDI'', ''k1eyJhNDI'']"
    by simp
  have "decode demo_lib [''eyJh'', ''NDI'', ''k1eyJhNDI''] = Inr (Some (Obj jose_header, Num 42))"
    by (simp add: decode_def jwsDecode_def isValidJws_def headerFromJWS_def demo_lib_def
        demo_text_def demo_parse_def base64url_def base64url_chars_def jose_header_def get_prop_def)
  then have "jws_verified demo_lib ''eyJh.NDI.k1eyJhNDI'' (Some ''k1'') = Inr (Num 42)"
    unfolding jws_verified_def Let_def parts
    by (simp add: demo_lib_def jose_header_def get_prop_def HS_ALGS_def js_trim_def is_space_def
        strip_zeros_def)
  then have "jwt_verify demo_lib ''eyJh.NDI.k1eyJhNDI'' (JWT_SECRET demo_env) 1500 = Inr (Num 42)"
    by (simp add: jwt_verify_def demo_env_def validate_claims_def)
  then show ?thesis
    using token by (simp add: authenticate_token)
qed

section \<open>Issuing, then authorizing\<close>

text \<open>
  C1. A token issued by \<open>generateToken\<close> for a user object that has an \<open>id\<close>, presented
  as \<^verbatim>\<open>Bearer <token>\<close> to \<open>authenticate\<close> under the same secret at any clock before
  issuance plus 1800 seconds, is accepted: no response is written, \<^verbatim>\<open>next()\<close> is called
  once, and \<^verbatim>\<open>req.user\<close> is the decoded claim, whose \<open>id\<close> is the one issued. The clock
  is the library's, in whole seconds; from second \<open>t0 + 1800\<close> on the token is expired.
  The library parameters are assumed to work on this token (\<open>well_encoded\<close>).
\<close>

theorem issue_then_authorize:
  assumes secret: "JWT_SECRET env = Some secret"
      and issued: "generateToken L env t0 usr = Inr tok"
      and ident: "get_prop usr ''id'' = ident" "ident \<noteq> Undefined"
      and lib: "well_encoded L secret [(''id'', ident), (''iat'', Num t0), (''exp'', Num (t0 + 1800))]"
      and header: "headers req ''authorization'' = Some (''Bearer '' @ tok)"
      and window: "now < t0 + 1800"
  shows "authenticate L env now req =
           \<lparr>req_out = req\<lparr>user := Some (Obj [(''id'', ident), (''iat'', Num t0), (''exp'', Num (t0 + 1800))])\<rparr>,
            sent = [], next_calls = 1\<rparr>"
proof -
  have lib': "well_encoded L secret
      [(''id'', get_prop usr ''id''), (''iat'', Num t0), (''exp'', Num (t0 + 1800))]"
    using lib ident(1) by simp
  show ?thesis
    using header_token_issued [OF secret issued lib' header]
      verify_issued [OF secret issued lib', of now] window ident
    by (simp add: authenticate_token json_props_issued)
qed

theorem issue_then_authorize_witness:
  "generateToken demo_lib demo_env 1000 alice = Inr ''eyJh.cDQy.k1eyJhcDQy'' \<and>
   authenticate demo_lib demo_env 2799 (request_with ''Bearer eyJh.cDQy.k1eyJhcDQy'') =
     \<lparr>req_out = (request_with ''Bearer eyJh.cDQy.k1eyJhcDQy'')\<lparr>user := Some (Obj claims_42)\<rparr>,
      sent = [], next_calls = 1\<rparr>"
proof -
  have secret: "JWT_SECRET demo_env = Some ''k1''"
    by (simp add: demo_env_def)
  have ident: "get_prop alice ''id'' = Num 42" "Num 42 \<noteq> Undefined"
    by (simp_all add: alice_def get_prop_def)
  have lib: "well_encoded demo_lib ''k1'' [(''id'', Num 42), (''iat'', Num 1000), (''exp'', Num (1000 + 1800))]"
    using demo_well_encoded by simp
  have header: "headers (request_with ''Bearer eyJh.cDQy.k1eyJhcDQy'') ''authorization'' =
      Some (''Bearer '' @ ''eyJh.cDQy.k1eyJhcDQy'')"
    by (simp add: request_with_def)
  have window: "(2799::int) < 1000 + 1800"
    by simp
  show ?thesis
    using issue_then_authorize [OF secret demo_issue ident lib header window] demo_issue
    by (simp add: claims_42_def)
qed

section \<open>Expired tokens\<close>

text \<open>
  C2, as amended. A token whose signature verifies under the guard's secret, whose
  payload has no not-before claim or one that is not later than the clock, and whose
  numeric expiry is not later than the clock, is answered with status 401 and the
  message of an expired token, and with nothing else. The claim as stated leaves the
  not-before claim out: the library examines it before the expiry, and the error it
  throws is not a \<^verbatim>\<open>TokenExpiredError\<close>.
\<close>

theorem expired_token_rejected:
  assumes token: "header_token req = Some t" "t \<noteq> []"
      and signed: "jws_verified L t (JWT_SECRET env) = Inr payload"
      and active: "property payload ''nbf'' = Undefined \<or>
                   (\<exists>nbf. property payload ''nbf'' = Num nbf \<and> nbf \<le> now)"
      and expiry: "property payload ''exp'' = Num e" "e \<le> now"
  shows "authenticate L env now req = respond req 401 ''Token has expired. Please log in again.''"
proof -
  have "payload \<noteq> Null"
    using expiry(1) by auto
  then have "validate_claims payload now = Inl (TokenExpiredError ''jwt expired'')"
    using active expiry by (auto simp: validate_claims_def)
  then show ?thesis
    using token signed by (simp add: authenticate_token jwt_verify_def)
qed

theorem expired_token_rejected_witness:
  "jws_verified demo_lib ''eyJh.cDQy.k1eyJhcDQy'' (JWT_SECRET demo_env) = Inr (Obj claims_42) \<and>
   property (Obj claims_42) ''exp'' = Num 2800 \<and>
   authenticate demo_lib demo_env 2800 (request_with ''Bearer eyJh.cDQy.k1eyJhcDQy'') =
     respond (request_with ''Bearer eyJh.cDQy.k1eyJhcDQy'') 401
       ''Token has expired. Please log in again.''"
proof -
  have signed: "jws_verified demo_lib ''eyJh.cDQy.k1eyJhcDQy'' (JWT_SECRET demo_env) = Inr (Obj claims_42)"
    by (simp add: demo_env_def demo_verified)
  have active: "property (Obj claims_42) ''nbf'' = Undefined \<or>
      (\<exists>nbf. property (Obj claims_42) ''nbf'' = Num nbf \<and> nbf \<le> 2800)"
    by (simp add: claims_42_def get_prop_def)
  have expiry: "property (Obj claims_42) ''exp'' = Num 2800" "(2800::int) \<le> 2800"
    by (simp_all add: claims_42_def get_prop_def)
  have ne: "''eyJh.cDQy.k1eyJhcDQy'' \<noteq> []"
    by simp
  from expired_token_rejected [OF demo_header_token ne signed active expiry] signed expiry(1)
  show ?thesis
    by (intro conjI)
qed

text \<open>
  A token signed under the guard's secret with \<open>nbf = 5000\<close> and \<open>exp = 2000\<close>, at clock
  3000: the signature verifies and the expiry is past, and the answer is 400,
  \<^verbatim>\<open>Invalid token.\<close>
\<close>

theorem not_before_counterexample:
  "jws_verified demo_lib ''eyJh.bmJm.k1eyJhbmJm'' (JWT_SECRET demo_env) = Inr (Obj claims_nbf) \<and>
   property (Obj claims_nbf) ''exp'' = Num 2000 \<and> (2000::int) < 3000 \<and>
   authenticate demo_lib demo_env 3000 (request_with ''Bearer eyJh.bmJm.k1eyJhbmJm'') =
     respond (request_with ''Bearer eyJh.bmJm.k1eyJhbmJm'') 400 ''Invalid token.''"
proof -
  have parts: "js_split CHR ''.'' ''eyJh.bmJm.k1eyJhbmJm'' = [''eyJh'', ''bmJm'', ''k1eyJhbmJm'']"
    by simp
  have "decode demo_lib [''eyJh'', ''bmJm'', ''k1eyJhbmJm''] =
      Inr (Some (Obj jose_header, Obj claims_nbf))"
    by (simp add: decode_def jwsDecode_def isValidJws_def headerFromJWS_def demo_lib_def
        demo_text_def demo_parse_def base64url_def base64url_chars_def jose_header_def get_prop_def)
  then have signed: "jws_verified demo_lib ''eyJh.bmJm.k1eyJhbmJm'' (JWT_SECRET demo_env) =
      Inr (Obj claims_nbf)"
    unfolding jws_verified_def Let_def parts
    by (simp add: demo_lib_def demo_env_def jose_header_def get_prop_def HS_ALGS_def js_trim_def
        is_space_def strip_zeros_def)
  have claims: "validate_claims (Obj claims_nbf) 3000 = Inl (NotBeforeError ''jwt not active'')"
    by (simp add: validate_claims_def claims_nbf_def get_prop_def)
  have token: "header_token (request_with ''Bearer eyJh.bmJm.k1eyJhbmJm'') = Some ''eyJh.bmJm.k1eyJhbmJm''"
    by (simp add: header_token_def request_with_def js_index_def)
  have "authenticate demo_lib demo_env 3000 (request_with ''Bearer eyJh.bmJm.k1eyJhbmJm'') =
      respond (request_with ''Bearer eyJh.bmJm.k1eyJhbmJm'') 400 ''Invalid token.''"
    by (simp add: authenticate_cases token jwt_verify_def signed claims)
  moreover have "property (Obj claims_nbf) ''exp'' = Num 2000"
    by (simp add: claims_nbf_def get_prop_def)
  ultimately show ?thesis
    using signed by simp
qed

section \<open>Tokens that do not carry the signature of the guard\<close>




section \<open>No token\<close>

text \<open>
  C4. A request without an authorization header, or whose header has fewer than two
  segments when split at the blank, is answered with status 401,
  \<^verbatim>\<open>Access denied. No token provided.\<close> The answer is the same for every library,
  secret and clock: nothing is verified.
\<close>

theorem no_token_rejected:
  assumes "headers req ''authorization'' = None \<or>
           (\<exists>h. headers req ''authorization'' = Some h \<and> length (js_split CHR '' '' h) < 2)"
  shows "authenticate L env now req = respond req 401 ''Access denied. No token provided.'' \<and>
         (\<forall>L' env' now'. authenticate L' env' now' req = authenticate L env now req)"
  using header_token_absent [OF assms] by (simp add: authenticate_def)

theorem no_token_rejected_witness:
  "authenticate demo_lib demo_env 1500 request_without =
     respond request_without 401 ''Access denied. No token provided.'' \<and>
   length (js_split CHR '' '' ''Bearer'') < 2 \<and>
   authenticate demo_lib other_env 9 (request_with ''Bearer'') =
     respond (request_with ''Bearer'') 401 ''Access denied. No token provided.''"
proof -
  have a: "headers request_without ''authorization'' = None"
    by (simp add: request_without_def)
  have b: "headers (request_with ''Bearer'') ''authorization'' = Some ''Bearer''"
    and c: "length (js_split CHR '' '' ''Bearer'') < 2"
    by (simp_all add: request_with_def)
  from a have "headers request_without ''authorization'' = None \<or>
      (\<exists>h. headers request_without ''authorization'' = Some h \<and> length (js_split CHR '' '' h) < 2)"
    by (rule disjI1)
  from no_token_rejected [OF this, of demo_lib demo_env 1500]
  have absent: "authenticate demo_lib demo_env 1500 request_without =
      respond request_without 401 ''Access denied. No token provided.''"
    by (rule conjunct1)
  from b c have "headers (request_with ''Bearer'') ''authorization'' = None \<or>
      (\<exists>h. headers (request_with ''Bearer'') ''authorization'' = Some h \<and>
           length (js_split CHR '' '' h) < 2)"
    by blast
  from no_token_rejected [OF this, of demo_lib other_env 9]
  have single: "authenticate demo_lib other_env 9 (request_with ''Bearer'') =
      respond (request_with ''Bearer'') 401 ''Access denied. No token provided.''"
    by (rule conjunct1)
  from absent c single show ?thesis
    by (intro conjI)
qed

text \<open>
  C8, as amended. When the second segment of the header, split at the blank, is the
  empty string, as in a header that ends in a blank or has two blanks in a row after
  the scheme, the answer is the same 401: the empty string is as falsy as a missing
  segment. The claim as stated counts segments between any whitespace.
\<close>

theorem empty_segment_is_no_token:
  assumes "headers req ''authorization'' = Some h"
      and "js_index (js_split CHR '' '' h) 1 = Some []"
  shows "authenticate L env now req = respond req 401 ''Access denied. No token provided.''"
  using assms by (simp add: authenticate_def header_token_def)

theorem empty_segment_is_no_token_witness:
  "js_split CHR '' '' ''Bearer '' = [''Bearer'', []] \<and>
   authenticate demo_lib demo_env 1500 (request_with ''Bearer '') =
     respond (request_with ''Bearer '') 401 ''Access denied. No token provided.'' \<and>
   js_split CHR '' '' ''Bearer  x'' = [''Bearer'', [], ''x''] \<and>
   authenticate demo_lib demo_env 1500 (request_with ''Bearer  x'') =
     respond (request_with ''Bearer  x'') 401 ''Access denied. No token provided.''"
proof -
  have a: "headers (request_with ''Bearer '') ''authorization'' = Some ''Bearer ''"
    and b: "headers (request_with ''Bearer  x'') ''authorization'' = Some ''Bearer  x''"
    by (simp_all add: request_with_def)
  have c: "js_split CHR '' '' ''Bearer '' = [''Bearer'', []]"
    and d: "js_split CHR '' '' ''Bearer  x'' = [''Bearer'', [], ''x'']"
    by simp_all
  have e: "js_index (js_split CHR '' '' ''Bearer '') 1 = Some []"
    and f: "js_index (js_split CHR '' '' ''Bearer  x'') 1 = Some []"
    by (simp_all add: js_index_def)
  show ?thesis
    using empty_segment_is_no_token [OF a e, of demo_lib demo_env 1500]
      empty_segment_is_no_token [OF b f, of demo_lib demo_env 1500] c d
    by simp
qed

text \<open>
  The header \<^verbatim>\<open>Bearer\<close>, a blank, a tab, \<^verbatim>\<open>x\<close>: split at every whitespace character
  its second segment is empty, but split at the blank it is the tab and \<^verbatim>\<open>x\<close>, which
  is verified and answered with 400, \<^verbatim>\<open>Invalid token.\<close>
\<close>

theorem tab_segment_counterexample:
  "js_index (whitespace_segments (''Bearer '' @ CHR 0x09 # ''x'')) 1 = Some [] \<and>
   authenticate demo_lib demo_env 1500 (request_with (''Bearer '' @ CHR 0x09 # ''x'')) =
     respond (request_with (''Bearer '' @ CHR 0x09 # ''x'')) 400 ''Invalid token.''"
proof -
  have "js_index (whitespace_segments (''Bearer '' @ CHR 0x09 # ''x'')) 1 = Some []"
    by (simp add: js_index_def is_space_def)
  moreover have token: "header_token (request_with (''Bearer '' @ CHR 0x09 # ''x'')) = Some (CHR 0x09 # ''x'')"
    by (simp add: header_token_def request_with_def js_index_def)
  have "\<not> signed_by demo_lib k (CHR 0x09 # ''x'')" for k
    by (simp add: signed_by_def)
  then have "authenticate demo_lib demo_env 1500 (request_with (''Bearer '' @ CHR 0x09 # ''x'')) =
      respond (request_with (''Bearer '' @ CHR 0x09 # ''x'')) 400 ''Invalid token.''"
    using authenticate_unsigned [OF token] by simp
  ultimately show ?thesis
    by simp
qed

section \<open>The lifetime of a token\<close>

text \<open>
  C5. Every token that \<open>generateToken\<close> returns is the serialisation of the claims
  \<open>id\<close>, \<open>iat\<close> and \<open>exp\<close>, where \<open>iat\<close> is the clock at issuance and \<open>exp\<close> is \<open>iat\<close> plus
  30 times 60 seconds, whatever the user, the secret and the clock. \<open>authenticate\<close>
  leaves the headers of the request, hence the token, as they were; and, where the
  library parameters work on the token, it accepts the token at a clock exactly when
  that clock is before \<open>exp\<close>, whatever was authorized before.
\<close>

theorem token_expiry_thirty_minutes:
  assumes "generateToken L env t0 usr = Inr tok"
  shows "(\<exists>secret. JWT_SECRET env = Some secret \<and>
            tok = jws_sign L jose_header
                    [(''id'', get_prop usr ''id''), (''iat'', Num t0), (''exp'', Num (t0 + 30 * 60))]
                    secret) \<and>
         headers (req_out (authenticate L env now req)) = headers req \<and>
         (\<forall>secret.
            JWT_SECRET env = Some secret \<and>
            well_encoded L secret
              [(''id'', get_prop usr ''id''), (''iat'', Num t0), (''exp'', Num (t0 + 30 * 60))] \<and>
            headers req ''authorization'' = Some (''Bearer '' @ tok) \<longrightarrow>
            (next_calls (authenticate L env now req) = 1 \<longleftrightarrow> now < t0 + 30 * 60))"
proof -
  from assms obtain secret where secret: "JWT_SECRET env = Some secret"
    by (cases "JWT_SECRET env") (auto simp: generateToken_unfold)
  with generateToken_Inr(2) [OF assms secret] have "\<exists>secret. JWT_SECRET env = Some secret \<and>
      tok = jws_sign L jose_header
              [(''id'', get_prop usr ''id''), (''iat'', Num t0), (''exp'', Num (t0 + 30 * 60))] secret"
    by simp
  moreover have "headers (req_out (authenticate L env now req)) = headers req"
    by (simp add: authenticate_cases respond_def split: option.splits sum.splits)
  moreover have "next_calls (authenticate L env now req) = 1 \<longleftrightarrow> now < t0 + 30 * 60"
    if lib: "well_encoded L secret
        [(''id'', get_prop usr ''id''), (''iat'', Num t0), (''exp'', Num (t0 + 30 * 60))]"
      and header: "headers req ''authorization'' = Some (''Bearer '' @ tok)"
  proof -
    have lib': "well_encoded L secret
        [(''id'', get_prop usr ''id''), (''iat'', Num t0), (''exp'', Num (t0 + 1800))]"
      using lib by simp
    show ?thesis
      using header_token_issued [OF secret assms lib' header]
        verify_issued [OF secret assms lib', of now]
      by (simp add: authenticate_token respond_def)
  qed
  ultimately show ?thesis
    using secret by auto
qed

theorem token_expiry_thirty_minutes_witness:
  "generateToken demo_lib demo_env 1000 alice = Inr ''eyJh.cDQy.k1eyJhcDQy'' \<and>
   ''eyJh.cDQy.k1eyJhcDQy'' =
     jws_sign demo_lib jose_header [(''id'', Num 42), (''iat'', Num 1000), (''exp'', Num 2800)] ''k1'' \<and>
   headers (req_out (authenticate demo_lib demo_env 1500 (request_with ''Bearer eyJh.cDQy.k1eyJhcDQy''))) =
     headers (request_with ''Bearer eyJh.cDQy.k1eyJhcDQy'') \<and>
   next_calls (authenticate demo_lib demo_env 2799 (request_with ''Bearer eyJh.cDQy.k1eyJhcDQy'')) = 1 \<and>
   next_calls (authenticate demo_lib demo_env 2800 (request_with ''Bearer eyJh.cDQy.k1eyJhcDQy'')) \<noteq> 1"
proof -
  let ?req = "request_with ''Bearer eyJh.cDQy.k1eyJhcDQy''"
  note thirty = token_expiry_thirty_minutes [OF demo_issue, of _ ?req]
  have secret: "JWT_SECRET demo_env = Some ''k1''"
    by (simp add: demo_env_def)
  have lib: "well_encoded demo_lib ''k1''
      [(''id'', get_prop alice ''id''), (''iat'', Num 1000), (''exp'', Num (1000 + 30 * 60))]"
    using demo_well_encoded by (simp add: alice_def get_prop_def)
  have header: "headers ?req ''authorization'' = Some (''Bearer '' @ ''eyJh.cDQy.k1eyJhcDQy'')"
    by (simp add: request_with_def)
  from thirty [of 1500] have "''eyJh.cDQy.k1eyJhcDQy'' =
      jws_sign demo_lib jose_header [(''id'', Num 42), (''iat'', Num 1000), (''exp'', Num 2800)] ''k1''"
    by (auto simp: demo_env_def alice_def get_prop_def)
  moreover from thirty [of 1500] have "headers (req_out (authenticate demo_lib demo_env 1500 ?req)) = headers ?req"
    by blast
  moreover from thirty [of 2799] secret lib header
  have "next_calls (authenticate demo_lib demo_env 2799 ?req) = 1 \<longleftrightarrow> (2799::int) < 1000 + 30 * 60"
    by blast
  then have "next_calls (authenticate demo_lib demo_env 2799 ?req) = 1"
    by simp
  moreover from thirty [of 2800] secret lib header
  have "next_calls (authenticate demo_lib demo_env 2800 ?req) = 1 \<longleftrightarrow> (2800::int) < 1000 + 30 * 60"
    by blast
  then have "next_calls (authenticate demo_lib demo_env 2800 ?req) \<noteq> 1"
    by simp
  ultimately show ?thesis
    using demo_issue by blast
qed

section \<open>The scheme word\<close>

text \<open>
  C6, as amended. For every header that has a second segment when split at the blank,
  whatever word stands before it and whatever follows it: when the second segment is
  empty the answer is the 401 of a missing token; otherwise the second segment is
  verified and the outcome is that of the verification alone, so the request is
  rejected when the verification fails, with 400 when the segment carries no signature
  of the guard's secret, and accepted when the segment is a valid token. The scheme
  word is not looked at. The claim as stated has every such request rejected.
\<close>

theorem scheme_not_checked:
  assumes header: "headers req ''authorization'' = Some h"
      and segments: "js_split CHR '' '' h = scheme # tok # rest"
  shows "authenticate L env now req =
           (if tok = [] then respond req 401 ''Access denied. No token provided.''
            else
              (case jwt_verify L tok (JWT_SECRET env) now of
                 Inr verified \<Rightarrow> \<lparr>req_out = req\<lparr>user := Some verified\<rparr>, sent = [], next_calls = 1\<rparr>
               | Inl error \<Rightarrow>
                   if error_name error = ''TokenExpiredError''
                   then respond req 401 ''Token has expired. Please log in again.''
                   else respond req 400 ''Invalid token.'')) \<and>
         (tok \<noteq> [] \<and> (\<forall>k. JWT_SECRET env = Some k \<longrightarrow> \<not> signed_by L k tok) \<longrightarrow>
            authenticate L env now req = respond req 400 ''Invalid token.'')"
proof -
  have ht: "header_token req = Some tok"
    using header segments by (simp add: header_token_def js_index_def)
  show ?thesis
    using authenticate_cases [of L env now req] authenticate_unsigned [OF ht, of env L now]
    by (simp add: ht)
qed

theorem scheme_not_checked_witness:
  "js_split CHR '' '' ''Token abc'' = [''Token'', ''abc''] \<and>
   authenticate demo_lib demo_env 1500 (request_with ''Token abc'') =
     respond (request_with ''Token abc'') 400 ''Invalid token.'' \<and>
   js_split CHR '' '' ''Token  x'' = [''Token'', [], ''x''] \<and>
   authenticate demo_lib demo_env 1500 (request_with ''Token  x'') =
     respond (request_with ''Token  x'') 401 ''Access denied. No token provided.''"
proof -
  have h1: "headers (request_with ''Token abc'') ''authorization'' = Some ''Token abc''"
    and h2: "headers (request_with ''Token  x'') ''authorization'' = Some ''Token  x''"
    by (simp_all add: request_with_def)
  have s1: "js_split CHR '' '' ''Token abc'' = ''Token'' # ''abc'' # []"
    and s2: "js_split CHR '' '' ''Token  x'' = ''Token'' # [] # [''x'']"
    by simp_all
  have "\<not> signed_by demo_lib ''k1'' ''abc''"
    by (simp add: signed_by_def)
  then have guard: "''abc'' \<noteq> [] \<and>
      (\<forall>k. JWT_SECRET demo_env = Some k \<longrightarrow> \<not> signed_by demo_lib k ''abc'')"
    by (simp add: demo_env_def)
  from scheme_not_checked [OF h1 s1, of demo_lib demo_env 1500] guard
  have rejected: "authenticate demo_lib demo_env 1500 (request_with ''Token abc'') =
      respond (request_with ''Token abc'') 400 ''Invalid token.''"
    by blast
  from scheme_not_checked [OF h2 s2, of demo_lib demo_env 1500]
  have empty: "authenticate demo_lib demo_env 1500 (request_with ''Token  x'') =
      respond (request_with ''Token  x'') 401 ''Access denied. No token provided.''"
    by simp
  from s1 rejected s2 empty show ?thesis
    by simp
qed

text \<open>
  The header \<^verbatim>\<open>Token\<close>, a blank, a valid token: the scheme is not \<^verbatim>\<open>Bearer\<close>, and the
  request is accepted.
\<close>

theorem wrong_scheme_accepted_counterexample:
  "js_split CHR '' '' ''Token eyJh.cDQy.k1eyJhcDQy'' = [''Token'', ''eyJh.cDQy.k1eyJhcDQy''] \<and>
   ''Token'' \<noteq> ''Bearer'' \<and>
   authenticate demo_lib demo_env 1500 (request_with ''Token eyJh.cDQy.k1eyJhcDQy'') =
     \<lparr>req_out = (request_with ''Token eyJh.cDQy.k1eyJhcDQy'')\<lparr>user := Some (Obj claims_42)\<rparr>,
      sent = [], next_calls = 1\<rparr>"
proof -
  have "header_token (request_with ''Token eyJh.cDQy.k1eyJhcDQy'') = Some ''eyJh.cDQy.k1eyJhcDQy''"
    by (simp add: header_token_def request_with_def js_index_def)
  then have "authenticate demo_lib demo_env 1500 (request_with ''Token eyJh.cDQy.k1eyJhcDQy'') =
      \<lparr>req_out = (request_with ''Token eyJh.cDQy.k1eyJhcDQy'')\<lparr>user := Some (Obj claims_42)\<rparr>,
       sent = [], next_calls = 1\<rparr>"
    by (simp add: authenticate_token demo_verify_1500)
  then show ?thesis
    by simp
qed

section \<open>Repeating the call\<close>

text \<open>
  C7. What \<open>authenticate\<close> answers depends on the request through its authorization
  header only: two requests with the same header get, under the same library, secret
  and clock, the same responses, the same number of \<^verbatim>\<open>next()\<close> calls and, when
  accepted, the same decoded claim. A call leaves the headers as they were, and a
  second call on the request as the first one left it gives the outcome of the first.
\<close>

theorem authenticate_repeatable:
  assumes "headers r1 ''authorization'' = headers r2 ''authorization''"
  shows "sent (authenticate L env now r1) = sent (authenticate L env now r2) \<and>
         next_calls (authenticate L env now r1) = next_calls (authenticate L env now r2) \<and>
         (next_calls (authenticate L env now r1) = 1 \<longrightarrow>
            user (req_out (authenticate L env now r1)) = user (req_out (authenticate L env now r2))) \<and>
         headers (req_out (authenticate L env now r1)) = headers r1 \<and>
         authenticate L env now (req_out (authenticate L env now r1)) = authenticate L env now r1"
proof -
  have tok: "header_token r1 = header_token r2"
    using assms by (simp add: header_token_def)
  have same: "header_token (r1\<lparr>user := u\<rparr>) = header_token r1" for u
    by (simp add: header_token_def)
  show ?thesis
    using tok same
    by (auto simp: authenticate_cases respond_def split: option.splits sum.splits)
qed

theorem authenticate_repeatable_witness:
  "authenticate demo_lib demo_env 1500
     (req_out (authenticate demo_lib demo_env 1500 (request_with ''Bearer eyJh.cDQy.k1eyJhcDQy''))) =
   authenticate demo_lib demo_env 1500 (request_with ''Bearer eyJh.cDQy.k1eyJhcDQy'') \<and>
   next_calls (authenticate demo_lib demo_env 1500 (request_with ''Bearer eyJh.cDQy.k1eyJhcDQy'')) = 1 \<and>
   user (req_out (authenticate demo_lib demo_env 1500 (request_with ''Bearer eyJh.cDQy.k1eyJhcDQy''))) =
   user (req_out (authenticate demo_lib demo_env 1500
     ((request_with ''Bearer eyJh.cDQy.k1eyJhcDQy'')\<lparr>user := Some (Obj alice)\<rparr>)))"
proof -
  let ?r1 = "request_with ''Bearer eyJh.cDQy.k1eyJhcDQy''"
  let ?r2 = "(request_with ''Bearer eyJh.cDQy.k1eyJhcDQy'')\<lparr>user := Some (Obj alice)\<rparr>"
  have same: "headers ?r1 ''authorization'' = headers ?r2 ''authorization''"
    by simp
  have called: "next_calls (authenticate demo_lib demo_env 1500 ?r1) = 1"
    by (simp add: authenticate_cases demo_header_token demo_verify_1500)
  show ?thesis
    using authenticate_repeatable [OF same, of demo_lib demo_env 1500] called by simp
qed

section \<open>One outcome for each request\<close>

text \<open>
  C9. Each run of \<open>authenticate\<close> either writes exactly one response or calls
  \<^verbatim>\<open>next()\<close> exactly once, never both. The response is one of the three rejections;
  when there is one, the request is unchanged (\<^verbatim>\<open>req.user\<close> is not assigned) and
  \<^verbatim>\<open>next()\<close> is not called. \<^verbatim>\<open>next()\<close> is called exactly when a non-empty token was
  found and its verification succeeded, and then \<^verbatim>\<open>req.user\<close> is the verified payload.
\<close>

theorem authenticate_one_outcome:
  "(let out = authenticate L env now req in
      length (sent out) + next_calls out = 1 \<and>
      set (sent out) \<subseteq>
        {(401, ''Access denied. No token provided.''),
         (400, ''Invalid token.''),
         (401, ''Token has expired. Please log in again.'')} \<and>
      (sent out \<noteq> [] \<longrightarrow> req_out out = req \<and> next_calls out = 0) \<and>
      (next_calls out = 1 \<longleftrightarrow>
         (\<exists>t v. header_token req = Some t \<and> t \<noteq> [] \<and>
                jwt_verify L t (JWT_SECRET env) now = Inr v)) \<and>
      (\<forall>t v. header_token req = Some t \<and> t \<noteq> [] \<and>
              jwt_verify L t (JWT_SECRET env) now = Inr v \<longrightarrow>
              req_out out = req\<lparr>user := Some v\<rparr> \<and> sent out = []))"
  by (auto simp: authenticate_cases respond_def Let_def split: option.splits sum.splits)

theorem authenticate_one_outcome_witness:
  "sent (authenticate demo_lib demo_env 1500 (request_with ''Token abc'')) = [(400, ''Invalid token.'')] \<and>
   req_out (authenticate demo_lib demo_env 1500 (request_with ''Token abc'')) = request_with ''Token abc'' \<and>
   next_calls (authenticate demo_lib demo_env 1500 (request_with ''Token abc'')) = 0 \<and>
   req_out (authenticate demo_lib demo_env 1500 (request_with ''Bearer eyJh.cDQy.k1eyJhcDQy'')) =
     (request_with ''Bearer eyJh.cDQy.k1eyJhcDQy'')\<lparr>user := Some (Obj claims_42)\<rparr> \<and>
   next_calls (authenticate demo_lib demo_env 1500 (request_with ''Bearer eyJh.cDQy.k1eyJhcDQy'')) = 1"
proof -
  have rejected: "sent (authenticate demo_lib demo_env 1500 (request_with ''Token abc'')) =
      [(400, ''Invalid token.'')]"
    by (simp add: authenticate_cases header_token_def request_with_def js_index_def
        jwt_verify_def jws_verified_def respond_def)
  have accepted: "header_token (request_with ''Bearer eyJh.cDQy.k1eyJhcDQy'') = Some ''eyJh.cDQy.k1eyJhcDQy'' \<and>
      ''eyJh.cDQy.k1eyJhcDQy'' \<noteq> [] \<and>
      jwt_verify demo_lib ''eyJh.cDQy.k1eyJhcDQy'' (JWT_SECRET demo_env) 1500 = Inr (Obj claims_42)"
    using demo_header_token demo_verify_1500 by simp
  from authenticate_one_outcome [of demo_lib demo_env 1500 "request_with ''Token abc''"] rejected
  have 1: "req_out (authenticate demo_lib demo_env 1500 (request_with ''Token abc'')) = request_with ''Token abc''"
    and 2: "next_calls (authenticate demo_lib demo_env 1500 (request_with ''Token abc'')) = 0"
    by (simp_all add: Let_def)
  from authenticate_one_outcome [of demo_lib demo_env 1500 "request_with ''Bearer eyJh.cDQy.k1eyJhcDQy''"]
  have 3: "req_out (authenticate demo_lib demo_env 1500 (request_with ''Bearer eyJh.cDQy.k1eyJhcDQy'')) =
      (request_with ''Bearer eyJh.cDQy.k1eyJhcDQy'')\<lparr>user := Some (Obj claims_42)\<rparr>"
    and 4: "next_calls (authenticate demo_lib demo_env 1500 (request_with ''Bearer eyJh.cDQy.k1eyJhcDQy'')) = 1"
    using accepted unfolding Let_def by blast+
  from rejected 1 2 3 4 show ?thesis by simp
qed

section \<open>What the token says about the user\<close>

text \<open>
  C10. The token depends on the user object through its \<open>id\<close> alone: every user object
  with the same \<open>id\<close> gets the same token at the same clock. The claim attached to an
  accepted request has no property but \<open>id\<close>, \<open>iat\<close> and \<open>exp\<close>; it has no \<open>username\<close>,
  though the login route passes one.
\<close>

theorem token_carries_only_id:
  assumes secret: "JWT_SECRET env = Some secret"
      and issued: "generateToken L env t0 usr = Inr tok"
      and lib: "well_encoded L secret
                  [(''id'', get_prop usr ''id''), (''iat'', Num t0), (''exp'', Num (t0 + 1800))]"
      and header: "headers req ''authorization'' = Some (''Bearer '' @ tok)"
      and window: "now < t0 + 1800"
  shows "(\<forall>usr'. get_prop usr' ''id'' = get_prop usr ''id'' \<longrightarrow>
            generateToken L env t0 usr' = Inr tok) \<and>
         (\<exists>claims.
            authenticate L env now req =
              \<lparr>req_out = req\<lparr>user := Some (Obj claims)\<rparr>, sent = [], next_calls = 1\<rparr> \<and>
            set (map fst claims) \<subseteq> {''id'', ''iat'', ''exp''} \<and>
            get_prop claims ''username'' = Undefined)"
proof -
  let ?claims = "json_props [(''id'', get_prop usr ''id''), (''iat'', Num t0), (''exp'', Num (t0 + 1800))]"
  have "generateToken L env t0 usr' = Inr tok" if "get_prop usr' ''id'' = get_prop usr ''id''" for usr'
  proof -
    have "generateToken L env t0 usr' = generateToken L env t0 usr"
      by (simp only: generateToken_unfold that)
    with issued show ?thesis by simp
  qed
  moreover have "authenticate L env now req =
      \<lparr>req_out = req\<lparr>user := Some (Obj ?claims)\<rparr>, sent = [], next_calls = 1\<rparr>"
    using header_token_issued [OF secret issued lib header] verify_issued [OF secret issued lib, of now]
      window
    by (simp add: authenticate_token)
  moreover have "set (map fst ?claims) \<subseteq> {''id'', ''iat'', ''exp''}"
    and "get_prop ?claims ''username'' = Undefined"
    by (simp_all add: json_props_issued get_prop_def)
  ultimately show ?thesis by blast
qed

theorem token_carries_only_id_witness:
  "get_prop alice ''username'' = Str ''alice'' \<and>
   generateToken demo_lib demo_env 1000 [(''id'', Num 42)] = Inr ''eyJh.cDQy.k1eyJhcDQy'' \<and>
   (\<exists>claims.
      authenticate demo_lib demo_env 1500 (request_with ''Bearer eyJh.cDQy.k1eyJhcDQy'') =
        \<lparr>req_out = (request_with ''Bearer eyJh.cDQy.k1eyJhcDQy'')\<lparr>user := Some (Obj claims)\<rparr>,
         sent = [], next_calls = 1\<rparr> \<and>
      set (map fst claims) \<subseteq> {''id'', ''iat'', ''exp''} \<and>
      get_prop claims ''username'' = Undefined)"
proof -
  have secret: "JWT_SECRET demo_env = Some ''k1''"
    by (simp add: demo_env_def)
  have lib: "well_encoded demo_lib ''k1''
      [(''id'', get_prop alice ''id''), (''iat'', Num 1000), (''exp'', Num (1000 + 1800))]"
    using demo_well_encoded by (simp add: alice_def get_prop_def)
  have header: "headers (request_with ''Bearer eyJh.cDQy.k1eyJhcDQy'') ''authorization'' =
      Some (''Bearer '' @ ''eyJh.cDQy.k1eyJhcDQy'')"
    by (simp add: request_with_def)
  have window: "(1500::int) < 1000 + 1800"
    by simp
  note only_id = token_carries_only_id [OF secret demo_issue lib header window]
  have same_id: "get_prop [(''id'', Num 42)] ''id'' = get_prop alice ''id''"
    by (simp add: alice_def get_prop_def)
  from only_id same_id have "generateToken demo_lib demo_env 1000 [(''id'', Num 42)] = Inr ''eyJh.cDQy.k1eyJhcDQy''"
    by blast
  moreover have "get_prop alice ''username'' = Str ''alice''"
    by (simp add: alice_def get_prop_def)
  ultimately show ?thesis
    using only_id by blast
qed

end
